theory Spec2Isabelle
  imports Main "HOL-Library.Char_ord" "HOL-Library.List_Lexorder"
begin

section \<open>JavaScript values used by the generators\<close>

text \<open>
  The generators of \<^verbatim>\<open>bson-transpilers\<close> walk an ANTLR parse tree and return target
  text. JavaScript strings are modelled as \<^typ>\<open>string\<close>; the inputs of interest are ASCII.
  A \<^verbatim>\<open>throw\<close> is the left injection of a sum.
\<close>

definition backslash :: char where
  "backslash = CHR 0x5C"

definition squote :: char where
  "squote = CHR 0x27"

definition dquote :: char where
  "dquote = CHR 0x22"

text \<open>\<^verbatim>\<open>s.charAt(i)\<close>: the one-character string at \<open>i\<close>, the empty string out of range.\<close>

definition charAt :: "string \<Rightarrow> nat \<Rightarrow> string" where
  "charAt s i = (if i < length s then [s ! i] else [])"

text \<open>
  \<^verbatim>\<open>s.substr(start, len)\<close> for a start that is not negative: at most \<open>len\<close> characters
  from \<open>start\<close>; a length that is not positive gives the empty string.
\<close>

definition substr :: "string \<Rightarrow> nat \<Rightarrow> int \<Rightarrow> string" where
  "substr s start len = take (nat len) (drop start s)"

text \<open>\<^verbatim>\<open>xs.join(sep)\<close> on an array of strings.\<close>

fun join :: "string \<Rightarrow> string list \<Rightarrow> string" where
  "join sep [] = []"
| "join sep [x] = x"
| "join sep (x # y # ys) = x @ sep @ join sep (y # ys)"

text \<open>The decimal text of a number that is a non-negative integer, and of any integer.\<close>

definition digit_char :: "nat \<Rightarrow> char" where
  "digit_char d = ''0123456789'' ! d"

function string_of_nat :: "nat \<Rightarrow> string" where
  "string_of_nat n =
     (if n < 10 then [digit_char n] else string_of_nat (n div 10) @ [digit_char (n mod 10)])"
  by pat_completeness auto
termination
  by (relation "measure id") auto

definition string_of_int :: "int \<Rightarrow> string" where
  "string_of_int i = (if i < 0 then CHR ''-'' # string_of_nat (nat (- i)) else string_of_nat (nat i))"

text \<open>
  The errors the generators raise. The four \<^verbatim>\<open>Semantic...\<close> classes and
  \<^verbatim>\<open>CodeGenerationError\<close> carry a message; \<open>NativeTypeError\<close> is the \<^verbatim>\<open>TypeError\<close> the
  JavaScript runtime itself throws when a property of \<^verbatim>\<open>undefined\<close> or \<^verbatim>\<open>null\<close> is read.
\<close>

datatype error =
    SemanticArgumentCountMismatchError string
  | SemanticTypeError string
  | SemanticGenericError string
  | SemanticReferenceError string
  | SemanticAttributeError string
  | CodeGenerationError string
  | NativeTypeError

section \<open>Backslash escaping of a regular expression source\<close>

text \<open>
  Both regex emitters compute \<^verbatim>\<open>pattern.replace(/\\(?!\/)/, '\\\\')\<close>. The regular
  expression has no \<^verbatim>\<open>g\<close> flag, so \<^verbatim>\<open>replace\<close> rewrites the first match only: the first
  backslash that is not immediately followed by a slash (a backslash at the very end
  matches too) becomes two backslashes, and the rest of the string is copied.
\<close>

fun escaped :: "string \<Rightarrow> string" where
  "escaped [] = []"
| "escaped (c # cs) =
     (if c = backslash \<and> (case cs of [] \<Rightarrow> True | d # _ \<Rightarrow> d \<noteq> CHR ''/'')
      then backslash # backslash # cs
      else c # escaped cs)"

section \<open>Octal literals in the Python emitter\<close>

text \<open>
  \<^verbatim>\<open>visitOctalIntegerLiteral\<close> (Python): \<open>oct\<close> is the text \<^verbatim>\<open>visitChildren\<close> returned for
  the literal. The method also sets the node's type to \<^verbatim>\<open>_octal\<close>, which does not enter
  the text.
\<close>

definition visitOctalIntegerLiteral :: "string \<Rightarrow> string" where
  "visitOctalIntegerLiteral oct =
     (let offset =
        (if charAt oct 0 = ''0'' \<and>
            (charAt oct 1 = ''0'' \<or> charAt oct 1 = ''o'' \<or> charAt oct 1 = ''O'')
         then 2
         else if charAt oct 0 = ''0'' then 1
         else 0)
      in ''0o'' @ substr oct offset (int (length oct) - 1))"

text \<open>
  The grammar's octal integer literal: a zero, then octal digits (the legacy form), or
  \<^verbatim>\<open>0o\<close>/\<^verbatim>\<open>0O\<close>, then octal digits. The value of an octal literal, in JavaScript as
  in Python, reads the digits after the prefix in base 8. A Python octal literal is
  \<^verbatim>\<open>0o\<close> or \<^verbatim>\<open>0O\<close> followed by at least one octal digit.
\<close>

definition octal_digit :: "char \<Rightarrow> bool" where
  "octal_digit c = (c \<in> set ''01234567'')"

definition octal_digits_value :: "string \<Rightarrow> nat" where
  "octal_digits_value ds = foldl (\<lambda>acc c. 8 * acc + (of_char c - of_char (CHR ''0''))) 0 ds"

fun accepted_octal :: "string \<Rightarrow> bool" where
  "accepted_octal (z # c # cs) =
     (z = CHR ''0'' \<and>
      (if c = CHR ''o'' \<or> c = CHR ''O'' then cs \<noteq> [] \<and> list_all octal_digit cs
       else list_all octal_digit (c # cs)))"
| "accepted_octal _ = False"

fun octal_literal_value :: "string \<Rightarrow> nat" where
  "octal_literal_value (z # c # cs) =
     (if c = CHR ''o'' \<or> c = CHR ''O'' then octal_digits_value cs else octal_digits_value (c # cs))"
| "octal_literal_value _ = 0"

fun python_octal_literal :: "string \<Rightarrow> bool" where
  "python_octal_literal (z # c # cs) =
     (z = CHR ''0'' \<and> (c = CHR ''o'' \<or> c = CHR ''O'') \<and> cs \<noteq> [] \<and> list_all octal_digit cs)"
| "python_octal_literal _ = False"

section \<open>Quoting helpers\<close>

text \<open>
  Modelled from the spec: \<^verbatim>\<open>doubleQuoteStringify\<close> and \<^verbatim>\<open>singleQuoteStringify\<close> come from
  the module \<^verbatim>\<open>helpers\<close>, which is not among the source files. The spec says that each
  target wraps a string in its quote style (single quotes for Python, double quotes for
  Java) and escapes embedded quotes accordingly. The emitters below take the helper as a
  parameter; these two definitions instantiate it in the worked examples.
\<close>

definition doubleQuoteStringify :: "string \<Rightarrow> string" where
  "doubleQuoteStringify s =
     dquote # concat (map (\<lambda>c. if c = dquote then [backslash, dquote] else [c]) s) @ [dquote]"

definition singleQuoteStringify :: "string \<Rightarrow> string" where
  "singleQuoteStringify s =
     squote # concat (map (\<lambda>c. if c = squote then [backslash, squote] else [c]) s) @ [squote]"

section \<open>Regular expressions\<close>

text \<open>
  What the emitters read of the \<^verbatim>\<open>RegExp\<close> object the sandbox returns. The sandbox call
  \<^verbatim>\<open>this.executeJavascript(ctx.getText())\<close> is a parameter \<open>sandbox\<close> of the emitters: it
  returns the object, or \<open>Inl\<close> the message of the error it threw.
\<close>

record regexobj =
  source :: string
  flags :: string

text \<open>
  The Python table. A lookup with a key the object literal does not have is
  \<^verbatim>\<open>undefined\<close>, here \<open>None\<close>.
\<close>

definition PYTHON_REGEX_FLAGS :: "char \<Rightarrow> string option" where
  "PYTHON_REGEX_FLAGS =
     [CHR ''i'' \<mapsto> ''i'', CHR ''m'' \<mapsto> ''m'', CHR ''u'' \<mapsto> ''a'', CHR ''y'' \<mapsto> [],
      CHR ''g'' \<mapsto> ''s'']"

text \<open>
  \<^verbatim>\<open>Array.prototype.sort()\<close> with no comparator on an array of strings and
  \<^verbatim>\<open>undefined\<close>: the strings in ascending order of their code units, then every
  \<^verbatim>\<open>undefined\<close>. \<^verbatim>\<open>Array.prototype.join('')\<close> renders \<^verbatim>\<open>undefined\<close> as the empty
  string.
\<close>

definition js_sort :: "string option list \<Rightarrow> string option list" where
  "js_sort xs = map Some (sort (List.map_filter id xs)) @ filter (\<lambda>x. x = None) xs"

definition js_join_empty :: "string option list \<Rightarrow> string" where
  "js_join_empty xs = concat (map (\<lambda>x. case x of None \<Rightarrow> [] | Some s \<Rightarrow> s) xs)"

text \<open>\<^verbatim>\<open>buildRegExp\<close> (Python); \<open>text\<close> is \<^verbatim>\<open>ctx.getText()\<close>.\<close>

definition buildRegExp ::
  "(string \<Rightarrow> string) \<Rightarrow> (string \<Rightarrow> string + regexobj) \<Rightarrow> string \<Rightarrow> error + string" where
  "buildRegExp stringify sandbox text =
     (case sandbox text of
        Inl message \<Rightarrow> Inl (SemanticGenericError message)
      | Inr re \<Rightarrow>
          (if flags re \<noteq> []
           then Inr (''re.compile(r'' @
                  stringify (escaped (source re) @ ''(?'' @
                    js_join_empty (js_sort (map PYTHON_REGEX_FLAGS (flags re))) @ '')'') @
                  '')'')
           else Inr (''re.compile(r'' @ stringify (escaped (source re)) @ '')'')))"

text \<open>
  \<^verbatim>\<open>visitRegularExpressionLiteral\<close> (Java, also \<^verbatim>\<open>emitRegExp\<close>). The call
  \<^verbatim>\<open>flags.replace(/[imuyg]/g, m => JAVA_REGEX_FLAGS[m])\<close> rewrites every character of the
  class through the table and copies every other character.
\<close>

definition JAVA_REGEX_FLAGS :: "char \<Rightarrow> string option" where
  "JAVA_REGEX_FLAGS =
     [CHR ''i'' \<mapsto> ''i'', CHR ''m'' \<mapsto> ''m'', CHR ''u'' \<mapsto> ''u'', CHR ''y'' \<mapsto> [],
      CHR ''g'' \<mapsto> []]"

definition java_replace_flags :: "string \<Rightarrow> string" where
  "java_replace_flags fl =
     concat (map (\<lambda>c. if c \<in> set ''imuyg''
                       then (case JAVA_REGEX_FLAGS c of Some s \<Rightarrow> s | None \<Rightarrow> ''undefined'')
                       else [c]) fl)"

definition visitRegularExpressionLiteral ::
  "(string \<Rightarrow> string) \<Rightarrow> (string \<Rightarrow> string + regexobj) \<Rightarrow> string \<Rightarrow> error + string" where
  "visitRegularExpressionLiteral stringify sandbox text =
     (case sandbox text of
        Inl message \<Rightarrow> Inl (CodeGenerationError message)
      | Inr re \<Rightarrow>
          (let javaflags = java_replace_flags (flags re);
               javaflags = (if javaflags = [] then [] else ''(?'' @ javaflags @ '')'')
           in Inr (''Pattern.compile('' @ stringify (escaped (source re) @ javaflags) @ '')'')))"

text \<open>
  The flag tables in the words of the spec: Python maps \<open>i\<close>, \<open>m\<close> to themselves, \<open>u\<close> to
  \<open>a\<close>, \<open>g\<close> to \<open>s\<close> and drops \<open>y\<close>; Java keeps \<open>i\<close>, \<open>m\<close>, \<open>u\<close> and drops \<open>y\<close> and \<open>g\<close>.
\<close>

definition in_flag_table :: "char \<Rightarrow> bool" where
  "in_flag_table c = (c \<in> set ''imuyg'')"

definition python_flags :: "string \<Rightarrow> string" where
  "python_flags fl =
     map (\<lambda>c. if c = CHR ''u'' then CHR ''a'' else if c = CHR ''g'' then CHR ''s'' else c)
       (filter (\<lambda>c. c \<noteq> CHR ''y'') fl)"

definition java_flags :: "string \<Rightarrow> string" where
  "java_flags fl = filter (\<lambda>c. c \<noteq> CHR ''y'' \<and> c \<noteq> CHR ''g'') fl"

text \<open>\<^verbatim>\<open>s.includes(sub)\<close>: the string \<open>sub\<close> occurs in \<open>s\<close>.\<close>

fun js_includes :: "string \<Rightarrow> string \<Rightarrow> bool" where
  "js_includes [] sub = (sub = [])"
| "js_includes (c # cs) sub = (take (length sub) (c # cs) = sub \<or> js_includes cs sub)"

section \<open>Types and parse-tree nodes\<close>

text \<open>
  Modelled from the spec: the module \<^verbatim>\<open>SymbolTable\<close> (\<^verbatim>\<open>Types\<close>, \<^verbatim>\<open>BsonClasses\<close>,
  \<^verbatim>\<open>JSClasses\<close>) is not among the source files. The spec describes a Type as a tagged
  value with a stable, non-empty \<^verbatim>\<open>id\<close>, and names the Types used below. The table holds
  one Type object per id, so \<^verbatim>\<open>===\<close> on Type objects is equality of ids.
\<close>

datatype type_obj = Type (type_id: string)

definition Types_string :: type_obj where "Types_string = Type ''_string''"
definition Types_integer :: type_obj where "Types_integer = Type ''_integer''"
definition Types_decimal :: type_obj where "Types_decimal = Type ''_decimal''"
definition Types_hex :: type_obj where "Types_hex = Type ''_hex''"
definition Types_octal :: type_obj where "Types_octal = Type ''_octal''"
definition Types_numeric :: type_obj where "Types_numeric = Type ''_numeric''"
definition Types_object :: type_obj where "Types_object = Type ''_object''"
definition Types_array :: type_obj where "Types_array = Type ''_array''"

text \<open>
  The mutable \<^verbatim>\<open>type\<close> property of a parse-tree node: \<^verbatim>\<open>undefined\<close> until a visit method
  assigns it, then a Type object or, where a Type's own \<^verbatim>\<open>type\<close> field names its result
  by id, a string.
\<close>

datatype type_slot = Unset | TypeName string | TypeOf type_obj

text \<open>
  A call node, as far as the emitters read it: \<^verbatim>\<open>ctx.getText()\<close> and
  \<^verbatim>\<open>ctx.arguments().argumentList()\<close>, which is \<^verbatim>\<open>null\<close> (here \<open>None\<close>) for an empty
  pair of parentheses and otherwise the list whose \<^verbatim>\<open>singleExpression()\<close> are the
  argument nodes. The children of an argument list are its expressions and the commas
  between them, which is what \<^verbatim>\<open>getChildCount()\<close> counts.

  Visiting an argument is a parameter \<open>visit\<close> of the emitters: it returns the text and the
  type the visit left on the node, or the error it raised.

  The emitters are modelled by the text they return or the error they raise. The Java
  emitters also assign the type of the call node (\<^verbatim>\<open>ctx.type = BsonClasses.ObjectId\<close> and
  the like) before anything else; the Python methods for the constructors assign none.
  The assignments that matter are modelled in the section on type tagging.
\<close>

record 'n call_ctx =
  getText :: string
  argumentList :: "'n list option"

definition getChildCount :: "'n list \<Rightarrow> nat" where
  "getChildCount args = 2 * length args - 1"

section \<open>BSONRegExp\<close>

text \<open>
  \<^verbatim>\<open>visitBSONRegExpConstructor\<close> (Python). \<^verbatim>\<open>removeQuotes\<close> is a helper that is not among
  the source files and stays a parameter. \<^verbatim>\<open>BSON_FLAGS\<close> maps each of its six keys to
  itself.
\<close>

definition BSON_FLAGS :: "char \<Rightarrow> string option" where
  "BSON_FLAGS =
     [CHR ''i'' \<mapsto> ''i'', CHR ''m'' \<mapsto> ''m'', CHR ''x'' \<mapsto> ''x'', CHR ''s'' \<mapsto> ''s'',
      CHR ''l'' \<mapsto> ''l'', CHR ''u'' \<mapsto> ''u'']"

definition visitBSONRegExpConstructor ::
  "(string \<Rightarrow> string) \<Rightarrow> (string \<Rightarrow> string) \<Rightarrow> ('n \<Rightarrow> error + string \<times> type_slot) \<Rightarrow>
   'n call_ctx \<Rightarrow> error + string" where
  "visitBSONRegExpConstructor removeQuotes stringify visit ctx =
     (case argumentList ctx of
        None \<Rightarrow>
          Inl (SemanticArgumentCountMismatchError ''BSONRegExp requires one or two arguments'')
      | Some args \<Rightarrow>
          if getChildCount args \<noteq> 1 \<and> getChildCount args \<noteq> 3
          then Inl (SemanticArgumentCountMismatchError
                 ''BSONRegExp requires one or two arguments'')
          else
            (case visit (args ! 0) of
               Inl e \<Rightarrow> Inl e
             | Inr (pattern, t0) \<Rightarrow>
                 if t0 \<noteq> TypeOf Types_string
                 then Inl (SemanticTypeError ''BSONRegExp requires pattern to be a string'')
                 else if length args = 2
                 then
                   (case visit (args ! 1) of
                      Inl e \<Rightarrow> Inl e
                    | Inr (flags', t1) \<Rightarrow>
                        if t1 \<noteq> TypeOf Types_string
                        then Inl (SemanticTypeError ''BSONRegExp requires flags to be a string'')
                        else if flags' \<noteq> []
                        then
                          (let items = removeQuotes flags';
                               unsuppotedFlags = filter (\<lambda>item. BSON_FLAGS item = None) items
                           in if unsuppotedFlags \<noteq> []
                              then Inl (SemanticGenericError
                                     (''Regular expression contains unsuppoted '' @ [squote] @
                                      unsuppotedFlags @ [squote] @ '' flag''))
                              else Inr (''RegExp('' @ pattern @ '', '' @
                                     stringify (js_join_empty (map BSON_FLAGS items)) @ '')''))
                        else Inr (''RegExp('' @ pattern @ '', '' @ flags' @ '')''))
                 else Inr (''RegExp('' @ pattern @ '')'')))"

text \<open>
  \<^verbatim>\<open>emitBSONRegExp\<close> (Java). \<open>flags'\<close> is the visited text of the second argument, quotes
  included; the loop runs over the positions \<open>1\<close> to \<open>length - 2\<close> and returns at the first
  character that is not one of the six letters.
\<close>

definition emitBSONRegExp ::
  "('n \<Rightarrow> error + string \<times> type_slot) \<Rightarrow> 'n call_ctx \<Rightarrow> error + string" where
  "emitBSONRegExp visit ctx =
     (case argumentList ctx of
        None \<Rightarrow> Inl (CodeGenerationError ''BSONRegExp requires one or two arguments'')
      | Some args \<Rightarrow>
          if \<not> (length args = 1 \<or> length args = 2)
          then Inl (CodeGenerationError ''BSONRegExp requires one or two arguments'')
          else
            (case visit (args ! 0) of
               Inl e \<Rightarrow> Inl e
             | Inr (pattern, t0) \<Rightarrow>
                 if t0 \<noteq> TypeOf Types_string
                 then Inl (CodeGenerationError ''BSONRegExp requires pattern to be a string'')
                 else if length args = 2
                 then
                   (case visit (args ! 1) of
                      Inl e \<Rightarrow> Inl e
                    | Inr (flags', t1) \<Rightarrow>
                        if t1 \<noteq> TypeOf Types_string
                        then Inl (CodeGenerationError ''BSONRegExp requires flags to be a string'')
                        else
                          (case find (\<lambda>c. c \<notin> set ''imxlsu'')
                                  (take (length flags' - 2) (drop 1 flags')) of
                             Some c \<Rightarrow>
                               Inr (''Error: the regular expression options ['' @ [c] @
                                    ''] is not supported'')
                           | None \<Rightarrow>
                               Inr (''new BsonRegularExpression('' @ pattern @ '', '' @ flags' @
                                    '')'')))
                 else Inr (''new BsonRegularExpression('' @ pattern @ '')'')))"

section \<open>ObjectId\<close>

text \<open>
  The \<^verbatim>\<open>ObjectID\<close> the sandbox returns, as far as the emitters read it. A sandbox call that
  throws, or whose value has no \<^verbatim>\<open>toHexString\<close>, is \<open>Inl\<close> the message: both happen inside
  the emitters' \<^verbatim>\<open>try\<close> block.
\<close>

record objectid =
  toHexString :: string

text \<open>\<^verbatim>\<open>visitBSONObjectIdConstructor\<close> (Python).\<close>

definition visitBSONObjectIdConstructor ::
  "(string \<Rightarrow> string) \<Rightarrow> (string \<Rightarrow> string + objectid) \<Rightarrow> 'n call_ctx \<Rightarrow> error + string" where
  "visitBSONObjectIdConstructor stringify sandbox ctx =
     (case argumentList ctx of
        None \<Rightarrow> Inr ''ObjectId()''
      | Some args \<Rightarrow>
          if getChildCount args \<noteq> 1
          then Inl (SemanticArgumentCountMismatchError ''ObjectId requires zero or one argument'')
          else
            (case sandbox (getText ctx) of
               Inl message \<Rightarrow> Inl (SemanticGenericError message)
             | Inr oid \<Rightarrow> Inr (''ObjectId('' @ stringify (toHexString oid) @ '')'')))"

text \<open>\<^verbatim>\<open>emitObjectId\<close> (Java).\<close>

definition emitObjectId ::
  "(string \<Rightarrow> string) \<Rightarrow> (string \<Rightarrow> string + objectid) \<Rightarrow> 'n call_ctx \<Rightarrow> error + string" where
  "emitObjectId stringify sandbox ctx =
     (case argumentList ctx of
        None \<Rightarrow> Inr ''new ObjectId()''
      | Some args \<Rightarrow>
          (case sandbox (getText ctx) of
             Inl message \<Rightarrow> Inl (CodeGenerationError message)
           | Inr oid \<Rightarrow> Inr (''new ObjectId('' @ stringify (toHexString oid) @ '')'')))"

section \<open>Date\<close>

text \<open>
  The \<^verbatim>\<open>Date\<close> the sandbox returns: its UTC accessors give integers, or \<^verbatim>\<open>NaN\<close> for an
  invalid date. \<^verbatim>\<open>NaN + 1\<close> is \<^verbatim>\<open>NaN\<close>, and \<^verbatim>\<open>join\<close> renders a number by its decimal
  text and \<^verbatim>\<open>NaN\<close> by its name.
\<close>

datatype jsnum = NaN | Number int

fun js_plus :: "jsnum \<Rightarrow> int \<Rightarrow> jsnum" where
  "js_plus NaN k = NaN"
| "js_plus (Number i) k = Number (i + k)"

fun jsnum_text :: "jsnum \<Rightarrow> string" where
  "jsnum_text NaN = ''NaN''"
| "jsnum_text (Number i) = string_of_int i"

record date =
  getUTCFullYear :: jsnum
  getUTCMonth :: jsnum
  getUTCDate :: jsnum
  getUTCHours :: jsnum
  getUTCMinutes :: jsnum
  getUTCSeconds :: jsnum

text \<open>\<^verbatim>\<open>visitDateConstructorExpression\<close> and \<^verbatim>\<open>visitDateNowConstructorExpression\<close> (Python).\<close>

definition visitDateConstructorExpression ::
  "(string \<Rightarrow> string + date) \<Rightarrow> 'n call_ctx \<Rightarrow> error + string" where
  "visitDateConstructorExpression sandbox ctx =
     (case argumentList ctx of
        None \<Rightarrow> Inr ''datetime.datetime.utcnow().date()''
      | Some args \<Rightarrow>
          (case sandbox (getText ctx) of
             Inl message \<Rightarrow> Inl (SemanticGenericError message)
           | Inr d \<Rightarrow>
               Inr (''datetime.datetime('' @
                    join '', ''
                      (map jsnum_text
                        [getUTCFullYear d, js_plus (getUTCMonth d) 1, getUTCDate d,
                         getUTCHours d, getUTCMinutes d, getUTCSeconds d]) @
                    '', tzinfo=datetime.timezone.utc)'')))"

definition visitDateNowConstructorExpression :: "error + string" where
  "visitDateNowConstructorExpression = Inr ''datetime.datetime.utcnow()''"

section \<open>The sandbox evaluator\<close>

text \<open>
  \<^verbatim>\<open>executeJavascript\<close> (CodeGenerator) uses the package \<^verbatim>\<open>context-eval\<close>:
  \<^verbatim>\<open>new Context(sandbox)\<close> allocates an evaluation context, \<^verbatim>\<open>ctx.evaluate(src)\<close> runs a
  source text in it and returns its value or throws, \<^verbatim>\<open>ctx.destroy()\<close> releases the
  context. The state of the package is the number of contexts allocated so far (the
  identity of the next one), the contexts that are alive, and the texts evaluated so far
  with the context each ran in. Running a text against the shims of the sandbox object is
  the parameter \<open>run\<close>: it returns the value, or \<open>Inl\<close> the message of the error thrown.
  The parameter \<open>sandbox\<close> of the emitters above is the result of this method in the
  current state of the package.
\<close>

record contexts =
  allocated :: nat
  alive :: "nat list"
  evaluated :: "(nat \<times> string) list"

definition new_Context :: "contexts \<Rightarrow> nat \<times> contexts" where
  "new_Context w =
     (allocated w, w\<lparr>allocated := allocated w + 1, alive := alive w @ [allocated w]\<rparr>)"

definition Context_evaluate ::
  "(string \<Rightarrow> string + 'v) \<Rightarrow> nat \<Rightarrow> string \<Rightarrow> contexts \<Rightarrow> (string + 'v) \<times> contexts" where
  "Context_evaluate run c src w = (run src, w\<lparr>evaluated := evaluated w @ [(c, src)]\<rparr>)"

definition Context_destroy :: "nat \<Rightarrow> contexts \<Rightarrow> contexts" where
  "Context_destroy c w = w\<lparr>alive := removeAll c (alive w)\<rparr>"

text \<open>
  The method has no \<^verbatim>\<open>try\<close>: when \<^verbatim>\<open>ctx.evaluate\<close> throws, the error leaves the method
  at once and the statement \<^verbatim>\<open>ctx.destroy()\<close> after it does not run.
\<close>

definition executeJavascript ::
  "(string \<Rightarrow> string + 'v) \<Rightarrow> string \<Rightarrow> contexts \<Rightarrow> (string + 'v) \<times> contexts" where
  "executeJavascript run input w =
     (let (ctx, w1) = new_Context w;
          (res, w2) = Context_evaluate run ctx (''__result = '' @ input) w1
      in case res of
           Inl message \<Rightarrow> (Inl message, w2)
         | Inr v \<Rightarrow> (Inr v, Context_destroy ctx w2))"

section \<open>The argument checker\<close>

text \<open>
  An element of a slot \<^verbatim>\<open>expected[i]\<close> of an argument schema: \<^verbatim>\<open>null\<close> (the argument may
  be left out), the id of a Type as a string, or a Type object.
\<close>

datatype slot_elem = Optional | SlotName string | SlotType type_obj

type_synonym slot = "slot_elem list"

text \<open>\<^verbatim>\<open>expected[i].indexOf(args[i].type) !== -1\<close>; no slot holds \<^verbatim>\<open>undefined\<close>.\<close>

fun slot_has_type :: "slot \<Rightarrow> type_slot \<Rightarrow> bool" where
  "slot_has_type e Unset = False"
| "slot_has_type e (TypeName s) = (SlotName s \<in> set e)"
| "slot_has_type e (TypeOf t) = (SlotType t \<in> set e)"

text \<open>
  \<^verbatim>\<open>expected[i].indexOf(args[i].type.id) !== -1\<close>: reading \<^verbatim>\<open>id\<close> of \<^verbatim>\<open>undefined\<close>
  throws, and the \<^verbatim>\<open>id\<close> of a string is \<^verbatim>\<open>undefined\<close>.
\<close>

fun slot_has_id :: "slot \<Rightarrow> type_slot \<Rightarrow> error + bool" where
  "slot_has_id e Unset = Inl NativeTypeError"
| "slot_has_id e (TypeName s) = Inr False"
| "slot_has_id e (TypeOf t) = Inr (SlotName (type_id t) \<in> set e)"

text \<open>
  The message of the type error: \<^verbatim>\<open>expected[i].map((e) => e.id ? e.id : e)\<close> reads
  \<^verbatim>\<open>id\<close> of every element, which throws on \<^verbatim>\<open>null\<close>; the template renders the array
  with commas, and \<^verbatim>\<open>args[i].type.id\<close> of a string as \<^verbatim>\<open>undefined\<close>.
\<close>

fun slot_elem_text :: "slot_elem \<Rightarrow> string" where
  "slot_elem_text Optional = []"
| "slot_elem_text (SlotName s) = s"
| "slot_elem_text (SlotType t) = type_id t"

fun type_slot_id_text :: "type_slot \<Rightarrow> string" where
  "type_slot_id_text Unset = ''undefined''"
| "type_slot_id_text (TypeName s) = ''undefined''"
| "type_slot_id_text (TypeOf t) = type_id t"

definition type_error_message :: "slot \<Rightarrow> type_slot \<Rightarrow> nat \<Rightarrow> error + string" where
  "type_error_message e ty i =
     (if Optional \<in> set e then Inl NativeTypeError
      else Inr (''expected types '' @ join '','' (map slot_elem_text e) @
                '' but got type '' @ type_slot_id_text ty @
                '' for argument at index '' @ string_of_nat i))"

definition is_numeric_type :: "type_slot \<Rightarrow> bool" where
  "is_numeric_type ty =
     (ty = TypeOf Types_integer \<or> ty = TypeOf Types_decimal \<or> ty = TypeOf Types_hex \<or>
      ty = TypeOf Types_octal)"

text \<open>
  The loop of \<^verbatim>\<open>checkArguments\<close> from index \<open>i\<close>, with the texts pushed so far.
  \<^verbatim>\<open>args[i] === undefined\<close> holds exactly when \<open>i\<close> is past the supplied arguments.
\<close>

function check_from ::
  "('n \<Rightarrow> error + string \<times> type_slot) \<Rightarrow> slot list \<Rightarrow> 'n list \<Rightarrow> nat \<Rightarrow> string list \<Rightarrow>
   error + string list" where
  "check_from visit expected args i argStr =
     (if i < length expected
      then
        (if length args \<le> i
         then
           (if Optional \<in> set (expected ! i) then Inr argStr
            else Inl (SemanticArgumentCountMismatchError ''too few arguments''))
         else
           (case visit (args ! i) of
              Inl e \<Rightarrow> Inl e
            | Inr (text, ty) \<Rightarrow>
                if SlotType Types_numeric \<in> set (expected ! i) \<and> is_numeric_type ty
                then check_from visit expected args (i + 1) (argStr @ [text])
                else if slot_has_type (expected ! i) ty
                then check_from visit expected args (i + 1) (argStr @ [text])
                else
                  (case slot_has_id (expected ! i) ty of
                     Inl e \<Rightarrow> Inl e
                   | Inr True \<Rightarrow> check_from visit expected args (i + 1) (argStr @ [text])
                   | Inr False \<Rightarrow>
                       (case type_error_message (expected ! i) ty i of
                          Inl e \<Rightarrow> Inl e
                        | Inr message \<Rightarrow> Inl (SemanticTypeError message)))))
      else Inr argStr)"
  by pat_completeness auto
termination
  by (relation "measure (\<lambda>(visit, expected, args, i, argStr). length expected - i)") auto

definition checkArguments ::
  "('n \<Rightarrow> error + string \<times> type_slot) \<Rightarrow> slot list \<Rightarrow> 'n list option \<Rightarrow> error + string list" where
  "checkArguments visit expected argumentList' =
     (case argumentList' of
        None \<Rightarrow>
          if expected = [] then Inr []
          else Inl (SemanticArgumentCountMismatchError ''arguments required'')
      | Some args \<Rightarrow>
          if length args > length expected
          then Inl (SemanticArgumentCountMismatchError
                 (''Arguments mismatch: expected '' @ string_of_nat (length expected) @
                  '' and got '' @ string_of_nat (length args)))
          else check_from visit expected args 0 [])"

text \<open>
  The arity bounds of a schema in the words of the spec. A slot permits the optional
  sentinel when it holds \<^verbatim>\<open>null\<close>; \<open>hi\<close> is the number of slots and \<open>lo\<close> the number of
  leading slots that do not permit the sentinel; the schema has the bounds \<open>[lo, hi]\<close>
  when every slot from \<open>lo\<close> on permits it. A type is acceptable for a slot when the slot
  holds the Type or its id, or holds \<^verbatim>\<open>_numeric\<close> and the type is one of \<^verbatim>\<open>_integer\<close>,
  \<^verbatim>\<open>_decimal\<close>, \<^verbatim>\<open>_hex\<close>, \<^verbatim>\<open>_octal\<close>.
\<close>

definition permits_optional :: "slot \<Rightarrow> bool" where
  "permits_optional e = (Optional \<in> set e)"

definition hi :: "slot list \<Rightarrow> nat" where
  "hi expected = length expected"

definition lo :: "slot list \<Rightarrow> nat" where
  "lo expected = length (takeWhile (\<lambda>e. \<not> permits_optional e) expected)"

definition optional_suffix :: "slot list \<Rightarrow> bool" where
  "optional_suffix expected = list_all permits_optional (drop (lo expected) expected)"

fun acceptable :: "slot \<Rightarrow> type_slot \<Rightarrow> bool" where
  "acceptable e Unset = False"
| "acceptable e (TypeName s) = (SlotName s \<in> set e)"
| "acceptable e (TypeOf t) =
     (SlotType t \<in> set e \<or> SlotName (type_id t) \<in> set e \<or>
      (SlotType Types_numeric \<in> set e \<and>
       t \<in> {Types_integer, Types_decimal, Types_hex, Types_octal}))"

section \<open>Type tagging in the tree walker\<close>

text \<open>
  Nodes are identified by numbers; \<open>types\<close> is the state of the \<^verbatim>\<open>type\<close> properties of
  all nodes of the tree. Visiting a node is a parameter \<open>visit\<close> of the walker: it returns
  the node's text and the new state, or the error raised. A terminal node is visited by
  \<^verbatim>\<open>visitTerminal\<close>, which returns its text and assigns no type.
\<close>

type_synonym node = nat

type_synonym types = "node \<Rightarrow> type_slot"


text \<open>
  The options of \<^verbatim>\<open>visitChildren\<close> after \<^verbatim>\<open>Object.assign\<close>; \<open>end_index\<close> is \<open>None\<close> when
  the caller's options have no \<^verbatim>\<open>end\<close>. \<open>default_opts\<close> are the options of a call that
  passes none, for a node with the given children.
\<close>

record opts =
  start :: int
  step :: int
  separator :: string
  ignore :: "int list"
  children :: "node list"
  end_index :: "int option"














section \<open>Theorems\<close>

text \<open>
  C4. The claim says every backslash that does not precede a slash is doubled, also when
  there are two of them. On the source text \<^verbatim>\<open>\d\w\<close> of the literal \<^verbatim>\<open>/\d\w/\<close> both
  emitters double the first backslash only; the second one is copied as it stands.
\<close>

theorem escaped_doubles_first_backslash_only:
  "escaped ([backslash] @ ''d'' @ [backslash] @ ''w'') =
     [backslash, backslash] @ ''d'' @ [backslash] @ ''w'' \<and>
   buildRegExp doubleQuoteStringify
     (\<lambda>src. Inr \<lparr>source = [backslash] @ ''d'' @ [backslash] @ ''w'', flags = []\<rparr>)
     (''/'' @ [backslash] @ ''d'' @ [backslash] @ ''w/'') =
     Inr (''re.compile(r'' @ [dquote, backslash, backslash] @ ''d'' @ [backslash] @ ''w'' @
          [dquote] @ '')'') \<and>
   visitRegularExpressionLiteral doubleQuoteStringify
     (\<lambda>src. Inr \<lparr>source = [backslash] @ ''d'' @ [backslash] @ ''w'', flags = []\<rparr>)
     (''/'' @ [backslash] @ ''d'' @ [backslash] @ ''w/'') =
     Inr (''Pattern.compile('' @ [dquote, backslash, backslash] @ ''d'' @ [backslash] @ ''w'' @
          [dquote] @ '')'')"
  by (simp add: buildRegExp_def visitRegularExpressionLiteral_def java_replace_flags_def
      doubleQuoteStringify_def backslash_def dquote_def)

text \<open>
  C8. The claim says the emitted text is a well-formed octal literal of the same value,
  also for \<^verbatim>\<open>00\<close>. The literal \<^verbatim>\<open>00\<close> is accepted and has value 0, and the emitter
  returns \<^verbatim>\<open>0o\<close> for it: a prefix with no digit, which is not an octal literal.
\<close>

theorem visitOctalIntegerLiteral_double_zero:
  "accepted_octal ''00'' \<and> octal_literal_value ''00'' = 0 \<and>
   visitOctalIntegerLiteral ''00'' = ''0o'' \<and>
   \<not> python_octal_literal (visitOctalIntegerLiteral ''00'')"
  by (simp add: visitOctalIntegerLiteral_def charAt_def substr_def octal_digit_def
      octal_digits_value_def)

text \<open>Every other accepted octal literal is emitted well formed and with its value.\<close>

lemma octal_digits_value_leading_zero:
  "octal_digits_value (CHR ''0'' # cs) = octal_digits_value cs"
  by (simp add: octal_digits_value_def)

lemma visitOctalIntegerLiteral_other_literals:
  assumes "accepted_octal oct" and "oct \<noteq> ''00''"
  shows "python_octal_literal (visitOctalIntegerLiteral oct) \<and>
         octal_literal_value (visitOctalIntegerLiteral oct) = octal_literal_value oct"
proof -
  from assms(1) obtain c cs where oct: "oct = CHR ''0'' # c # cs"
    by (cases oct rule: accepted_octal.cases) auto
  show ?thesis
  proof (cases "c = CHR ''o'' \<or> c = CHR ''O''")
    case True
    with assms oct show ?thesis
      by (auto simp: visitOctalIntegerLiteral_def charAt_def substr_def)
  next
    case letter: False
    show ?thesis
    proof (cases "c = CHR ''0''")
      case True
      with assms oct letter show ?thesis
        by (auto simp: visitOctalIntegerLiteral_def charAt_def substr_def
            octal_digits_value_leading_zero)
    next
      case False
      with assms oct letter show ?thesis
        by (auto simp: visitOctalIntegerLiteral_def charAt_def substr_def)
    qed
  qed
qed

subsection \<open>Sorting the mapped flags\<close>

lemma concat_insort_Nil: "concat (insort ([]::string) ys) = concat ys"
  by (cases ys) auto

lemma concat_insort_single:
  "\<forall>y\<in>set ys. length y \<le> 1 \<Longrightarrow> concat (insort [c::char] ys) = insort c (concat ys)"
proof (induction ys)
  case Nil
  then show ?case by simp
next
  case (Cons y ys)
  then show ?case
    by (cases y) auto
qed

lemma concat_sort_short:
  "\<forall>x\<in>set xs. length x \<le> 1 \<Longrightarrow> concat (sort (xs::string list)) = sort (concat xs)"
proof (induction xs)
  case Nil
  then show ?case by simp
next
  case (Cons x xs)
  show ?case
  proof (cases x)
    case Nil
    with Cons show ?thesis by (simp add: concat_insort_Nil)
  next
    case (Cons c cs)
    with Cons.prems have "cs = []" by simp
    with Cons Cons.prems Cons.IH show ?thesis
      by (simp add: concat_insort_single)
  qed
qed

lemma PYTHON_REGEX_FLAGS_short: "PYTHON_REGEX_FLAGS c = Some s \<Longrightarrow> length s \<le> 1"
  by (auto simp: PYTHON_REGEX_FLAGS_def split: if_splits)

lemma js_join_empty_js_sort:
  "js_join_empty (js_sort xs) = concat (sort (List.map_filter id xs))"
proof -
  have "concat (map (\<lambda>x. case x of None \<Rightarrow> [] | Some s \<Rightarrow> s) (filter (\<lambda>x. x = None) xs)) = ([]::string)"
    by (induction xs) auto
  then show ?thesis
    by (simp add: js_join_empty_def js_sort_def o_def)
qed

lemma concat_defined_flags:
  "concat (List.map_filter id (map PYTHON_REGEX_FLAGS fl)) = python_flags (filter in_flag_table fl)"
  by (induction fl)
    (auto simp: List.map_filter_simps PYTHON_REGEX_FLAGS_def python_flags_def in_flag_table_def)

lemma python_flag_text:
  "js_join_empty (js_sort (map PYTHON_REGEX_FLAGS fl)) = sort (python_flags (filter in_flag_table fl))"
proof -
  have "\<forall>x\<in>set (List.map_filter id (map PYTHON_REGEX_FLAGS fl)). length x \<le> 1"
    using PYTHON_REGEX_FLAGS_short by (fastforce simp: List.map_filter_def)
  then show ?thesis
    by (simp add: js_join_empty_js_sort concat_sort_short concat_defined_flags)
qed

lemma java_replace_flags_eq:
  "set fl \<subseteq> set ''imuyg'' \<Longrightarrow> java_replace_flags fl = java_flags fl"
  by (induction fl) (auto simp: java_replace_flags_def java_flags_def JAVA_REGEX_FLAGS_def)

lemma buildRegExp_success:
  "sandbox text = Inr re \<Longrightarrow>
   buildRegExp stringify sandbox text =
     Inr (''re.compile(r'' @
       stringify (escaped (source re) @
         (if flags re = [] then []
          else ''(?'' @ sort (python_flags (filter in_flag_table (flags re))) @ '')'')) @
       '')'')"
  by (simp add: buildRegExp_def python_flag_text)

lemma buildRegExp_failure:
  "sandbox text = Inl message \<Longrightarrow>
   buildRegExp stringify sandbox text = Inl (SemanticGenericError message)"
  by (simp add: buildRegExp_def)

lemma filter_in_flag_table: "set fl \<subseteq> set ''imuyg'' \<Longrightarrow> filter in_flag_table fl = fl"
  by (induction fl) (auto simp: in_flag_table_def)

text \<open>
  C7. For a regex whose flags all lie in \<open>{i, m, u, y, g}\<close>, the Python emitter appends the
  inline group holding the mapped flags (\<open>i\<close> to \<open>i\<close>, \<open>m\<close> to \<open>m\<close>, \<open>u\<close> to \<open>a\<close>, \<open>g\<close> to \<open>s\<close>,
  \<open>y\<close> dropped) in ascending order, and the Java emitter appends the group holding the
  flags it keeps (\<open>i\<close>, \<open>m\<close>, \<open>u\<close>; \<open>y\<close> and \<open>g\<close> dropped). A regex with no flag at all
  gets no group in either target, and neither does a Java regex none of whose flags is
  kept.
\<close>

theorem regex_flag_translation:
  assumes "sandbox text = Inr re"
    and "set (flags re) \<subseteq> set ''imuyg''"
  shows "buildRegExp stringify sandbox text =
           Inr (''re.compile(r'' @
             stringify (escaped (source re) @
               (if flags re = [] then [] else ''(?'' @ sort (python_flags (flags re)) @ '')'')) @
             '')'') \<and>
         visitRegularExpressionLiteral stringify sandbox text =
           Inr (''Pattern.compile('' @
             stringify (escaped (source re) @
               (if java_flags (flags re) = [] then []
                else ''(?'' @ java_flags (flags re) @ '')'')) @
             '')'')"
  using assms
  by (simp add: buildRegExp_success filter_in_flag_table visitRegularExpressionLiteral_def
      java_replace_flags_eq)

theorem regex_flag_translation_witness:
  \<open>set ''gi'' \<subseteq> set ''imuyg'' \<and>
   buildRegExp doubleQuoteStringify (\<lambda>_. Inr \<lparr>source = ''foo'', flags = ''gi''\<rparr>) ''/foo/gi'' =
     Inr ''re.compile(r"foo(?is)")'' \<and>
   visitRegularExpressionLiteral doubleQuoteStringify
       (\<lambda>_. Inr \<lparr>source = ''foo'', flags = ''gi''\<rparr>) ''/foo/gi'' =
     Inr ''Pattern.compile("foo(?i)")''\<close>
  using regex_flag_translation [of "\<lambda>_. Inr \<lparr>source = ''foo'', flags = ''gi''\<rparr>" "''/foo/gi''"
      "\<lparr>source = ''foo'', flags = ''gi''\<rparr>" doubleQuoteStringify]
  by (simp add: python_flags_def java_flags_def doubleQuoteStringify_def dquote_def backslash_def)

text \<open>
  C10. The claim says that a flag outside \<open>{i, m, u, y, g}\<close> leaves the text
  \<^verbatim>\<open>undefined\<close> in the inline group. For \<^verbatim>\<open>/foo/s\<close> the Python emitter returns
  \<^verbatim>\<open>re.compile(r"foo(?)")\<close>: \<^verbatim>\<open>join\<close> renders the undefined table entry as the empty
  string.
\<close>

theorem buildRegExp_dotall_counterexample:
  \<open>buildRegExp doubleQuoteStringify (\<lambda>_. Inr \<lparr>source = ''foo'', flags = ''s''\<rparr>) ''/foo/s'' =
     Inr ''re.compile(r"foo(?)")'' \<and>
   \<not> js_includes ''re.compile(r"foo(?)")'' ''undefined''\<close>
  by (simp add: buildRegExp_success python_flags_def in_flag_table_def doubleQuoteStringify_def
      dquote_def backslash_def)

text \<open>
  C10, as amended. \<^verbatim>\<open>buildRegExp\<close> raises exactly when the sandbox evaluation fails, and
  then a generic error with the sandbox's message. When the evaluation succeeds and there
  is at least one flag, it returns the pattern followed by an inline group that holds the
  mapped flags of the table in ascending order: a flag outside \<open>{i, m, u, y, g}\<close> raises
  nothing and adds nothing to the group.
\<close>

theorem buildRegExp_flags_outside_table:
  "((\<exists>e. buildRegExp stringify sandbox text = Inl e) \<longleftrightarrow>
      (\<exists>message. sandbox text = Inl message)) \<and>
   (\<forall>message. sandbox text = Inl message \<longrightarrow>
      buildRegExp stringify sandbox text = Inl (SemanticGenericError message)) \<and>
   (\<forall>re. sandbox text = Inr re \<longrightarrow> flags re \<noteq> [] \<longrightarrow>
      buildRegExp stringify sandbox text =
        Inr (''re.compile(r'' @
          stringify (escaped (source re) @
            ''(?'' @ sort (python_flags (filter in_flag_table (flags re))) @ '')'') @
          '')''))"
proof (cases "sandbox text")
  case (Inl message)
  then show ?thesis by (simp add: buildRegExp_failure)
next
  case (Inr re)
  then show ?thesis by (simp add: buildRegExp_success)
qed

theorem buildRegExp_flags_outside_table_witness:
  \<open>buildRegExp doubleQuoteStringify (\<lambda>_. Inr \<lparr>source = ''foo'', flags = ''is''\<rparr>) ''/foo/is'' =
     Inr ''re.compile(r"foo(?i)")'' \<and>
   buildRegExp doubleQuoteStringify (\<lambda>_. Inl ''Invalid flags'') ''RegExp("foo","q")'' =
     Inl (SemanticGenericError ''Invalid flags'')\<close>
  using buildRegExp_flags_outside_table [of doubleQuoteStringify
      "\<lambda>_. Inr \<lparr>source = ''foo'', flags = ''is''\<rparr>" "''/foo/is''"]
    buildRegExp_flags_outside_table [of doubleQuoteStringify
      "\<lambda>_. Inl ''Invalid flags''" \<open>''RegExp("foo","q")''\<close>]
  by (simp add: python_flags_def in_flag_table_def doubleQuoteStringify_def dquote_def
      backslash_def)

subsection \<open>BSONRegExp, Date and ObjectId\<close>

text \<open>
  C3. The claim says that both emitters raise on a flag outside \<open>{i, m, x, s, l, u}\<close>. For
  \<^verbatim>\<open>BSONRegExp("a", "g")\<close>, whose arguments both type as strings, the Java emitter raises
  nothing: it returns the sentence \<^verbatim>\<open>Error: the regular expression options [g] is not
  supported\<close> as its output text.
\<close>

theorem emitBSONRegExp_returns_error_text:
  \<open>emitBSONRegExp (\<lambda>n. Inr (doubleQuoteStringify n, TypeOf Types_string))
     \<lparr>getText = ''BSONRegExp("a","g")'', argumentList = Some [''a'', ''g'']\<rparr> =
   Inr ''Error: the regular expression options [g] is not supported''\<close>
  by (simp add: emitBSONRegExp_def doubleQuoteStringify_def dquote_def backslash_def)

lemma visitBSONRegExpConstructor_unsupported:
  assumes "argumentList ctx = Some [a, b]"
    and "visit a = Inr (pattern, TypeOf Types_string)"
    and "visit b = Inr (flags', TypeOf Types_string)"
    and "flags' \<noteq> []"
    and "filter (\<lambda>c. c \<notin> set ''imxslu'') (removeQuotes flags') \<noteq> []"
  shows "visitBSONRegExpConstructor removeQuotes stringify visit ctx =
           Inl (SemanticGenericError
             (''Regular expression contains unsuppoted '' @ [squote] @
              filter (\<lambda>c. c \<notin> set ''imxslu'') (removeQuotes flags') @ [squote] @ '' flag''))"
proof -
  have "(\<lambda>item. BSON_FLAGS item = None) = (\<lambda>c. c \<notin> set ''imxslu'')"
    by (auto simp: BSON_FLAGS_def fun_eq_iff)
  with assms show ?thesis
    by (simp add: visitBSONRegExpConstructor_def getChildCount_def Let_def)
qed

text \<open>
  C5. The claim says that the Date constructor with no arguments emits
  \<^verbatim>\<open>datetime.datetime.utcnow()\<close>. \<^verbatim>\<open>visitDateConstructorExpression\<close> on a call with no
  arguments returns the date-only text \<^verbatim>\<open>datetime.datetime.utcnow().date()\<close>.
\<close>

theorem visitDateConstructorExpression_no_arguments_counterexample:
  "visitDateConstructorExpression (\<lambda>_. Inl [])
     \<lparr>getText = ''Date()'', argumentList = (None :: string list option)\<rparr> =
     Inr ''datetime.datetime.utcnow().date()'' \<and>
   visitDateConstructorExpression (\<lambda>_. Inl [])
     \<lparr>getText = ''Date()'', argumentList = (None :: string list option)\<rparr> \<noteq>
     Inr ''datetime.datetime.utcnow()''"
  by (simp add: visitDateConstructorExpression_def)

text \<open>
  C5, as amended. In the Python target the Date constructor with no arguments emits the
  date-only text \<^verbatim>\<open>datetime.datetime.utcnow().date()\<close>, and only a call with no
  arguments does; \<^verbatim>\<open>datetime.datetime.utcnow()\<close> is what the \<^verbatim>\<open>Date.now\<close> form emits. A Date
  constructor with arguments is evaluated in the sandbox and emitted as
  \<^verbatim>\<open>datetime.datetime(year, month + 1, day, hours, minutes, seconds,
  tzinfo=datetime.timezone.utc)\<close> from the UTC accessors; a failed evaluation is a
  generic error with the sandbox's message.
\<close>

theorem python_date_emission:
  "((visitDateConstructorExpression sandbox ctx =
       Inr ''datetime.datetime.utcnow().date()'') \<longleftrightarrow> argumentList ctx = None) \<and>
   visitDateNowConstructorExpression = Inr ''datetime.datetime.utcnow()'' \<and>
   (\<forall>d. argumentList ctx \<noteq> None \<longrightarrow> sandbox (getText ctx) = Inr d \<longrightarrow>
      visitDateConstructorExpression sandbox ctx =
        Inr (''datetime.datetime('' @
             jsnum_text (getUTCFullYear d) @ '', '' @ jsnum_text (js_plus (getUTCMonth d) 1) @
             '', '' @ jsnum_text (getUTCDate d) @ '', '' @ jsnum_text (getUTCHours d) @
             '', '' @ jsnum_text (getUTCMinutes d) @ '', '' @ jsnum_text (getUTCSeconds d) @
             '', tzinfo=datetime.timezone.utc)'')) \<and>
   (\<forall>message. argumentList ctx \<noteq> None \<longrightarrow> sandbox (getText ctx) = Inl message \<longrightarrow>
      visitDateConstructorExpression sandbox ctx = Inl (SemanticGenericError message))"
  by (auto simp: visitDateConstructorExpression_def visitDateNowConstructorExpression_def
      split: option.splits sum.splits)

theorem python_date_emission_witness:
  "visitDateConstructorExpression
     (\<lambda>_. Inr \<lparr>getUTCFullYear = Number 2018, getUTCMonth = Number 2, getUTCDate = Number 27,
             getUTCHours = Number 0, getUTCMinutes = Number 5, getUTCSeconds = Number 59\<rparr>)
     \<lparr>getText = ''Date(2018,2,27,0,5,59)'', argumentList = Some [''2018'', ''2'', ''27'', ''0'', ''5'', ''59'']\<rparr> =
     Inr ''datetime.datetime(2018, 3, 27, 0, 5, 59, tzinfo=datetime.timezone.utc)'' \<and>
   visitDateConstructorExpression (\<lambda>_. Inl ''Invalid Date'')
     \<lparr>getText = ''Date(x)'', argumentList = Some [''x'']\<rparr> =
     Inl (SemanticGenericError ''Invalid Date'')"
  using python_date_emission [of
      "\<lambda>_. Inr \<lparr>getUTCFullYear = Number 2018, getUTCMonth = Number 2, getUTCDate = Number 27,
             getUTCHours = Number 0, getUTCMinutes = Number 5, getUTCSeconds = Number 59\<rparr>"
      "\<lparr>getText = ''Date(2018,2,27,0,5,59)'', argumentList = Some [''2018'', ''2'', ''27'', ''0'', ''5'', ''59'']\<rparr>"]
    python_date_emission [of "\<lambda>_. Inl ''Invalid Date''"
      "\<lparr>getText = ''Date(x)'', argumentList = Some [''x'']\<rparr>"]
  by (simp add: string_of_int_def digit_char_def)

text \<open>
  C6. The claim says that every target raises an argument-count mismatch for two or more
  arguments. The Java emitter counts no arguments: for a call with two arguments it
  evaluates the call in the sandbox and embeds the hex string it gets.
\<close>

theorem emitObjectId_two_arguments_counterexample:
  \<open>emitObjectId doubleQuoteStringify (\<lambda>_. Inr \<lparr>toHexString = ''5ab901c29ee65f5c8550c5b9''\<rparr>)
     \<lparr>getText = ''ObjectId("5ab901c29ee65f5c8550c5b9",1)'',
      argumentList = Some [''"5ab901c29ee65f5c8550c5b9"'', ''1'']\<rparr> =
   Inr ''new ObjectId("5ab901c29ee65f5c8550c5b9")''\<close>
  by (simp add: emitObjectId_def doubleQuoteStringify_def dquote_def backslash_def)

text \<open>
  C6, as amended. With no arguments both targets emit the bare constructor. The Python
  emitter accepts one argument, evaluates the call in the sandbox and embeds the quoted
  hex string, and raises an argument-count mismatch for two or more arguments. The Java
  emitter checks no count: whenever there are arguments it evaluates the call in the
  sandbox and embeds the quoted hex string. A failed evaluation is a generic error
  (Python) or a code generation error (Java) with the sandbox's message.
\<close>

theorem objectid_emission:
  "(argumentList ctx = None \<longrightarrow>
      visitBSONObjectIdConstructor quote1 sandbox ctx = Inr ''ObjectId()'' \<and>
      emitObjectId quote2 sandbox ctx = Inr ''new ObjectId()'') \<and>
   (\<forall>args. argumentList ctx = Some args \<longrightarrow> 2 \<le> length args \<longrightarrow>
      visitBSONObjectIdConstructor quote1 sandbox ctx =
        Inl (SemanticArgumentCountMismatchError ''ObjectId requires zero or one argument'')) \<and>
   (\<forall>args oid. argumentList ctx = Some args \<longrightarrow> sandbox (getText ctx) = Inr oid \<longrightarrow>
      (length args = 1 \<longrightarrow>
         visitBSONObjectIdConstructor quote1 sandbox ctx =
           Inr (''ObjectId('' @ quote1 (toHexString oid) @ '')'')) \<and>
      emitObjectId quote2 sandbox ctx =
        Inr (''new ObjectId('' @ quote2 (toHexString oid) @ '')'')) \<and>
   (\<forall>args message.
      argumentList ctx = Some args \<longrightarrow> sandbox (getText ctx) = Inl message \<longrightarrow>
      (length args = 1 \<longrightarrow>
         visitBSONObjectIdConstructor quote1 sandbox ctx =
           Inl (SemanticGenericError message)) \<and>
      emitObjectId quote2 sandbox ctx = Inl (CodeGenerationError message))"
  by (auto simp: visitBSONObjectIdConstructor_def emitObjectId_def getChildCount_def)

theorem objectid_emission_witness:
  \<open>visitBSONObjectIdConstructor singleQuoteStringify
     (\<lambda>_. Inr \<lparr>toHexString = ''5ab901c29ee65f5c8550c5b9''\<rparr>)
     \<lparr>getText = ''ObjectId("5ab901c29ee65f5c8550c5b9")'',
      argumentList = Some [''"5ab901c29ee65f5c8550c5b9"'']\<rparr> =
     Inr (''ObjectId('' @ [squote] @ ''5ab901c29ee65f5c8550c5b9'' @ [squote] @ '')'') \<and>
   emitObjectId doubleQuoteStringify
     (\<lambda>_. Inr \<lparr>toHexString = ''5ab901c29ee65f5c8550c5b9''\<rparr>)
     \<lparr>getText = ''ObjectId("5ab901c29ee65f5c8550c5b9")'',
      argumentList = Some [''"5ab901c29ee65f5c8550c5b9"'']\<rparr> =
     Inr ''new ObjectId("5ab901c29ee65f5c8550c5b9")'' \<and>
   visitBSONObjectIdConstructor singleQuoteStringify (\<lambda>_. Inl [])
     \<lparr>getText = ''ObjectId(1,2)'', argumentList = Some [''1'', ''2'']\<rparr> =
     Inl (SemanticArgumentCountMismatchError ''ObjectId requires zero or one argument'') \<and>
   visitBSONObjectIdConstructor singleQuoteStringify (\<lambda>_. Inl [])
     \<lparr>getText = ''ObjectId()'', argumentList = (None :: string list option)\<rparr> =
     Inr ''ObjectId()'' \<and>
   emitObjectId doubleQuoteStringify (\<lambda>_. Inl ''not hex'')
     \<lparr>getText = ''ObjectId("zz")'', argumentList = Some [''"zz"'']\<rparr> =
     Inl (CodeGenerationError ''not hex'') \<and>
   visitBSONObjectIdConstructor singleQuoteStringify (\<lambda>_. Inl ''not hex'')
     \<lparr>getText = ''ObjectId("zz")'', argumentList = Some [''"zz"'']\<rparr> =
     Inl (SemanticGenericError ''not hex'')\<close>
  using objectid_emission [of
      \<open>\<lparr>getText = ''ObjectId("zz")'', argumentList = Some [''"zz"'']\<rparr>\<close>
      singleQuoteStringify "\<lambda>_. Inl ''not hex''" doubleQuoteStringify]
    objectid_emission [of
      \<open>\<lparr>getText = ''ObjectId("5ab901c29ee65f5c8550c5b9")'',
        argumentList = Some [''"5ab901c29ee65f5c8550c5b9"'']\<rparr>\<close>
      singleQuoteStringify "\<lambda>_. Inr \<lparr>toHexString = ''5ab901c29ee65f5c8550c5b9''\<rparr>"
      doubleQuoteStringify]
    objectid_emission [of "\<lparr>getText = ''ObjectId(1,2)'', argumentList = Some [''1'', ''2'']\<rparr>"
      singleQuoteStringify "\<lambda>_. Inl []" doubleQuoteStringify]
    objectid_emission [of
      "\<lparr>getText = ''ObjectId()'', argumentList = (None :: string list option)\<rparr>"
      singleQuoteStringify "\<lambda>_. Inl []" doubleQuoteStringify]
  by (simp add: singleQuoteStringify_def doubleQuoteStringify_def squote_def dquote_def
      backslash_def)

subsection \<open>The argument checker\<close>

declare check_from.simps [simp del]

lemma acceptable_step:
  assumes "visit (args ! i) = Inr (render a, ty a)"
    and "acceptable (expected ! i) (ty a)"
    and "i < length expected" and "i < length args"
  shows "check_from visit expected args i acc =
         check_from visit expected args (i + 1) (acc @ [render a])"
proof (cases "ty a")
  case Unset
  with assms show ?thesis by simp
next
  case (TypeName s)
  with assms show ?thesis
    by (subst check_from.simps) (simp add: is_numeric_type_def)
next
  case (TypeOf t)
  with assms show ?thesis
    by (subst check_from.simps)
      (auto simp: is_numeric_type_def split: bool.splits)
qed

lemma unacceptable_step:
  assumes "visit (args ! i) = Inr (render a, ty a)"
    and "\<not> acceptable (expected ! i) (ty a)" and "ty a \<noteq> Unset"
    and "i < length expected" and "i < length args"
  shows "check_from visit expected args i acc =
         (case type_error_message (expected ! i) (ty a) i of
            Inl e \<Rightarrow> Inl e
          | Inr message \<Rightarrow> Inl (SemanticTypeError message))"
proof (cases "ty a")
  case Unset
  with assms show ?thesis by simp
next
  case (TypeName s)
  with assms show ?thesis
    by (subst check_from.simps) (simp add: is_numeric_type_def)
next
  case (TypeOf t)
  with assms show ?thesis
    by (subst check_from.simps)
      (auto simp: is_numeric_type_def split: bool.splits)
qed

lemma check_from_end:
  "length args \<le> i \<Longrightarrow>
   check_from visit expected args i acc =
     (if i < length expected \<and> \<not> permits_optional (expected ! i)
      then Inl (SemanticArgumentCountMismatchError ''too few arguments'')
      else Inr acc)"
  by (subst check_from.simps) (simp add: permits_optional_def)

lemma check_from_accepts:
  assumes "\<forall>a\<in>set args. visit a = Inr (render a, ty a)"
    and "\<forall>j<length args. i \<le> j \<longrightarrow> acceptable (expected ! j) (ty (args ! j))"
    and "length args \<le> length expected"
    and "i \<le> length args"
  shows "check_from visit expected args i acc =
         check_from visit expected args (length args) (acc @ map render (drop i args))"
  using assms(2,4)
proof (induction "length args - i" arbitrary: i acc)
  case 0
  then show ?case by simp
next
  case (Suc n)
  then have i: "i < length args" by simp
  with assms(1) have v: "visit (args ! i) = Inr (render (args ! i), ty (args ! i))"
    by simp
  from i Suc.prems have "acceptable (expected ! i) (ty (args ! i))" by simp
  with v i assms(3)
  have "check_from visit expected args i acc =
        check_from visit expected args (i + 1) (acc @ [render (args ! i)])"
    by (intro acceptable_step) auto
  also have "\<dots> = check_from visit expected args (length args)
                     ((acc @ [render (args ! i)]) @ map render (drop (i + 1) args))"
    using Suc by (intro Suc.hyps) auto
  also have "(acc @ [render (args ! i)]) @ map render (drop (i + 1) args) =
             acc @ map render (drop i args)"
    using i by (simp add: Cons_nth_drop_Suc [symmetric])
  finally show ?case .
qed

lemma check_from_first_mismatch:
  assumes "\<forall>a\<in>set args. visit a = Inr (render a, ty a)"
    and "\<forall>j<m. acceptable (expected ! j) (ty (args ! j))"
    and "\<not> acceptable (expected ! m) (ty (args ! m))" and "ty (args ! m) \<noteq> Unset"
    and "m < length args" and "length args \<le> length expected"
  shows "check_from visit expected args 0 [] =
         (case type_error_message (expected ! m) (ty (args ! m)) m of
            Inl e \<Rightarrow> Inl e
          | Inr message \<Rightarrow> Inl (SemanticTypeError message))"
proof -
  have take: "\<forall>a\<in>set (take m args). visit a = Inr (render a, ty a)"
    using assms(1) by (auto dest: in_set_takeD)
  have "check_from visit expected args i acc = check_from visit expected args m (acc @ map render (take (m - i) (drop i args)))"
    if "i \<le> m" for i acc
    using that
  proof (induction "m - i" arbitrary: i acc)
    case 0
    then show ?case by simp
  next
    case (Suc n)
    then have i: "i < m" by simp
    with assms(5) have il: "i < length args" by simp
    with assms(1) have v: "visit (args ! i) = Inr (render (args ! i), ty (args ! i))"
      by simp
    from i assms(2) have "acceptable (expected ! i) (ty (args ! i))" by simp
    with v il assms(6)
    have "check_from visit expected args i acc =
          check_from visit expected args (i + 1) (acc @ [render (args ! i)])"
      by (intro acceptable_step) auto
    also have "\<dots> = check_from visit expected args m
                       ((acc @ [render (args ! i)]) @ map render (take (m - (i + 1)) (drop (i + 1) args)))"
      using Suc by (intro Suc.hyps) auto
    also have "(acc @ [render (args ! i)]) @ map render (take (m - (i + 1)) (drop (i + 1) args)) =
               acc @ map render (take (m - i) (drop i args))"
    proof -
      from i obtain d where d: "m - i = Suc d" by (cases "m - i") auto
      then have "m - (i + 1) = d" by simp
      with d il show ?thesis
        by (simp add: Cons_nth_drop_Suc [symmetric])
    qed
    finally show ?case .
  qed
  from this [of 0 "[]"]
  have "check_from visit expected args 0 [] =
        check_from visit expected args m (map render (take m args))"
    by simp
  also have "\<dots> = (case type_error_message (expected ! m) (ty (args ! m)) m of
            Inl e \<Rightarrow> Inl e
          | Inr message \<Rightarrow> Inl (SemanticTypeError message))"
    using assms by (intro unacceptable_step) auto
  finally show ?thesis .
qed

lemma check_from_all_acceptable:
  assumes "\<forall>a\<in>set args. visit a = Inr (render a, ty a)"
    and "\<forall>j<length args. acceptable (expected ! j) (ty (args ! j))"
    and "length args \<le> length expected"
  shows "check_from visit expected args 0 [] =
         (if length args < length expected \<and> \<not> permits_optional (expected ! length args)
          then Inl (SemanticArgumentCountMismatchError ''too few arguments'')
          else Inr (map render args))"
proof -
  have "check_from visit expected args 0 [] =
        check_from visit expected args (length args) ([] @ map render (drop 0 args))"
    using assms by (intro check_from_accepts) auto
  then show ?thesis
    by (simp add: check_from_end)
qed

lemma lo_le_hi: "lo expected \<le> hi expected"
  by (simp add: lo_def hi_def length_takeWhile_le)

lemma below_lo: "k < lo expected \<Longrightarrow> \<not> permits_optional (expected ! k)"
  unfolding lo_def using nth_length_takeWhile takeWhile_nth
  by (metis (mono_tags, lifting) nth_mem set_takeWhileD)

lemma from_lo:
  "optional_suffix expected \<Longrightarrow> lo expected \<le> k \<Longrightarrow> k < length expected \<Longrightarrow>
   permits_optional (expected ! k)"
proof -
  assume a: "optional_suffix expected" "lo expected \<le> k" "k < length expected"
  then have "expected ! k = drop (lo expected) expected ! (k - lo expected)"
    by simp
  moreover have "k - lo expected < length (drop (lo expected) expected)"
    using a by simp
  ultimately show ?thesis
    using a(1) by (simp add: optional_suffix_def list_all_length del: nth_drop)
qed

lemma arity_ok_iff:
  assumes "optional_suffix expected" and "k \<le> length expected"
  shows "(k < length expected \<and> \<not> permits_optional (expected ! k)) \<longleftrightarrow> k < lo expected"
proof
  assume "k < length expected \<and> \<not> permits_optional (expected ! k)"
  with assms from_lo show "k < lo expected"
    by (metis not_le_imp_less)
next
  assume "k < lo expected"
  with lo_le_hi [of expected] below_lo show "k < length expected \<and> \<not> permits_optional (expected ! k)"
    by (auto simp: hi_def)
qed

lemma checkArguments_too_many:
  "length expected < length args \<Longrightarrow>
   checkArguments visit expected (Some args) =
     Inl (SemanticArgumentCountMismatchError
       (''Arguments mismatch: expected '' @ string_of_nat (length expected) @
        '' and got '' @ string_of_nat (length args)))"
  by (simp add: checkArguments_def)

text \<open>
  C1. The claim says that a call with zero arguments succeeds against a schema all of
  whose slots permit the optional sentinel, and that a mismatched slot raises a type
  error. For the schema with the single slot \<^verbatim>\<open>[_integer, null]\<close>, whose bounds are
  \<open>[0, 1]\<close>, a call with no argument list (\<^verbatim>\<open>null\<close>, which is how an empty pair of
  parentheses arrives) raises the argument-count mismatch \<^verbatim>\<open>arguments required\<close>,
  although the loop of the same function accepts a missing argument at that slot: an
  argument list with no expression succeeds. For the same schema a string argument
  raises no semantic type error: building its message reads \<^verbatim>\<open>id\<close> of the \<^verbatim>\<open>null\<close> in the
  slot, and the runtime's own \<^verbatim>\<open>TypeError\<close> escapes; so it does for an argument whose
  visit left no type, whose \<^verbatim>\<open>type.id\<close> is read.
\<close>

theorem checkArguments_rejects_omitted_optional_argument:
  \<open>optional_suffix [[SlotType Types_integer, Optional]] \<and>
   lo [[SlotType Types_integer, Optional]] = 0 \<and>
   hi [[SlotType Types_integer, Optional]] = 1 \<and>
   checkArguments (\<lambda>n. Inr (n, TypeOf Types_integer)) [[SlotType Types_integer, Optional]] None =
     Inl (SemanticArgumentCountMismatchError ''arguments required'') \<and>
   checkArguments (\<lambda>n. Inr (n, TypeOf Types_integer)) [[SlotType Types_integer, Optional]]
     (Some []) = Inr [] \<and>
   checkArguments (\<lambda>n. Inr (n, TypeOf Types_string)) [[SlotType Types_integer, Optional]]
     (Some [''"a"'']) = Inl NativeTypeError \<and>
   checkArguments (\<lambda>n. Inr (n, Unset)) [[SlotType Types_integer]]
     (Some [''ObjectId()'']) = Inl NativeTypeError\<close>
  by (simp add: optional_suffix_def lo_def hi_def permits_optional_def checkArguments_def
      check_from.simps is_numeric_type_def type_error_message_def
      Types_integer_def Types_string_def Types_numeric_def)

text \<open>
  Apart from these inputs the checker does what the claim says. Take a schema with arity
  bounds \<open>[lo, hi]\<close> and \<open>k\<close> supplied arguments whose visits succeed and leave a type on
  each.

  \<^item> With no argument list at all, the check succeeds with no text exactly when the schema
    is empty, and raises the count mismatch \<^verbatim>\<open>arguments required\<close> otherwise.
  \<^item> With an argument list, the check succeeds exactly when \<open>lo \<le> k \<le> hi\<close> and every
    supplied argument's type is acceptable for its slot, and then returns the rendered
    texts of all arguments in order.
  \<^item> More than \<open>hi\<close> arguments raise a count mismatch; no argument is visited for it
    (\<open>checkArguments_too_many\<close> holds whatever the visits do).
  \<^item> Otherwise the first failure in slot order is raised: the type error of the first
    mismatched slot, when that slot does not permit the sentinel, and, when every
    supplied argument is acceptable and \<open>k < lo\<close>, the count mismatch
    \<^verbatim>\<open>too few arguments\<close>.
\<close>

lemma checkArguments_outcome:
  assumes "optional_suffix expected"
    and "\<forall>a\<in>set args. visit a = Inr (render a, ty a) \<and> ty a \<noteq> Unset"
  shows
    "checkArguments visit expected None =
       (if expected = [] then Inr []
        else Inl (SemanticArgumentCountMismatchError ''arguments required'')) \<and>
     ((\<exists>r. checkArguments visit expected (Some args) = Inr r) \<longleftrightarrow>
        lo expected \<le> length args \<and> length args \<le> hi expected \<and>
        (\<forall>j<length args. acceptable (expected ! j) (ty (args ! j)))) \<and>
     (\<forall>r. checkArguments visit expected (Some args) = Inr r \<longrightarrow> r = map render args) \<and>
     (hi expected < length args \<longrightarrow>
        checkArguments visit expected (Some args) =
          Inl (SemanticArgumentCountMismatchError
            (''Arguments mismatch: expected '' @ string_of_nat (length expected) @
             '' and got '' @ string_of_nat (length args)))) \<and>
     (\<forall>m<length args.
        length args \<le> hi expected \<longrightarrow>
        (\<forall>j<m. acceptable (expected ! j) (ty (args ! j))) \<longrightarrow>
        \<not> acceptable (expected ! m) (ty (args ! m)) \<longrightarrow>
        \<not> permits_optional (expected ! m) \<longrightarrow>
        checkArguments visit expected (Some args) =
          Inl (SemanticTypeError
            (''expected types '' @ join '','' (map slot_elem_text (expected ! m)) @
             '' but got type '' @ type_slot_id_text (ty (args ! m)) @
             '' for argument at index '' @ string_of_nat m))) \<and>
     (length args < lo expected \<longrightarrow>
        (\<forall>j<length args. acceptable (expected ! j) (ty (args ! j))) \<longrightarrow>
        checkArguments visit expected (Some args) =
          Inl (SemanticArgumentCountMismatchError ''too few arguments''))"
proof -
  from assms(2) have visits: "\<forall>a\<in>set args. visit a = Inr (render a, ty a)"
    and typed: "\<And>j. j < length args \<Longrightarrow> ty (args ! j) \<noteq> Unset"
    by auto
  have none: "checkArguments visit expected None =
       (if expected = [] then Inr []
        else Inl (SemanticArgumentCountMismatchError ''arguments required''))"
    by (simp add: checkArguments_def)
  have many: "checkArguments visit expected (Some args) =
          Inl (SemanticArgumentCountMismatchError
            (''Arguments mismatch: expected '' @ string_of_nat (length expected) @
             '' and got '' @ string_of_nat (length args)))"
    if "hi expected < length args"
    using that by (simp add: checkArguments_too_many hi_def)
  have mismatch: "checkArguments visit expected (Some args) =
         (case type_error_message (expected ! m) (ty (args ! m)) m of
            Inl e \<Rightarrow> Inl e
          | Inr message \<Rightarrow> Inl (SemanticTypeError message))"
    if "m < length args" "length args \<le> hi expected"
      "\<forall>j<m. acceptable (expected ! j) (ty (args ! j))"
      "\<not> acceptable (expected ! m) (ty (args ! m))" for m
  proof -
    from that(2) have le: "length args \<le> length expected"
      by (simp add: hi_def)
    from check_from_first_mismatch [OF visits that(3,4) typed [OF that(1)] that(1) le] le
    show ?thesis
      by (simp add: checkArguments_def)
  qed
  have all_ok: "checkArguments visit expected (Some args) =
         (if length args < lo expected
          then Inl (SemanticArgumentCountMismatchError ''too few arguments'')
          else Inr (map render args))"
    if "length args \<le> hi expected" "\<forall>j<length args. acceptable (expected ! j) (ty (args ! j))"
  proof -
    from that(1) have le: "length args \<le> length expected"
      by (simp add: hi_def)
    from check_from_all_acceptable [OF visits that(2) le]
      arity_ok_iff [OF assms(1) le] le
    show ?thesis
      by (simp add: checkArguments_def)
  qed
  have fails: "\<exists>e. checkArguments visit expected (Some args) = Inl e"
    if "\<not> (\<forall>j<length args. acceptable (expected ! j) (ty (args ! j)))"
  proof (cases "length args \<le> hi expected")
    case False
    with many show ?thesis by simp
  next
    case True
    define P where "P j \<longleftrightarrow> j < length args \<and> \<not> acceptable (expected ! j) (ty (args ! j))" for j
    from that have "\<exists>j. P j" by (auto simp: P_def)
    then obtain m where m: "P m" "\<forall>j<m. \<not> P j"
      using exists_least_iff [of P] by auto
    then have "\<forall>j<m. acceptable (expected ! j) (ty (args ! j))"
      by (auto simp: P_def)
    with m True mismatch [of m] show ?thesis
      by (auto simp: P_def split: sum.splits)
  qed
  have iff: "(\<exists>r. checkArguments visit expected (Some args) = Inr r) \<longleftrightarrow>
        lo expected \<le> length args \<and> length args \<le> hi expected \<and>
        (\<forall>j<length args. acceptable (expected ! j) (ty (args ! j)))"
  proof (cases "\<forall>j<length args. acceptable (expected ! j) (ty (args ! j))")
    case False
    with fails show ?thesis by auto
  next
    case ok: True
    show ?thesis
    proof (cases "length args \<le> hi expected")
      case True
      with ok all_ok show ?thesis by auto
    next
      case False
      with many show ?thesis by auto
    qed
  qed
  have result: "r = map render args" if "checkArguments visit expected (Some args) = Inr r" for r
  proof -
    from that iff have "length args \<le> hi expected"
      "\<forall>j<length args. acceptable (expected ! j) (ty (args ! j))" "lo expected \<le> length args"
      by blast+
    with all_ok that show ?thesis by simp
  qed
  have type_error: "checkArguments visit expected (Some args) =
          Inl (SemanticTypeError
            (''expected types '' @ join '','' (map slot_elem_text (expected ! m)) @
             '' but got type '' @ type_slot_id_text (ty (args ! m)) @
             '' for argument at index '' @ string_of_nat m))"
    if "m < length args" "length args \<le> hi expected"
      "\<forall>j<m. acceptable (expected ! j) (ty (args ! j))"
      "\<not> acceptable (expected ! m) (ty (args ! m))" "\<not> permits_optional (expected ! m)" for m
    using mismatch [OF that(1-4)] that(5)
    by (simp add: type_error_message_def permits_optional_def)
  have few: "checkArguments visit expected (Some args) =
          Inl (SemanticArgumentCountMismatchError ''too few arguments'')"
    if "length args < lo expected" "\<forall>j<length args. acceptable (expected ! j) (ty (args ! j))"
    using that all_ok lo_le_hi [of expected] by simp
  from none iff result many type_error few show ?thesis
    by blast
qed

lemma checkArguments_outcome_examples:
  \<open>optional_suffix [[SlotType Types_numeric], [SlotType Types_string], [SlotType Types_object, Optional]] \<and>
   lo [[SlotType Types_numeric], [SlotType Types_string], [SlotType Types_object, Optional]] = 2 \<and>
   hi [[SlotType Types_numeric], [SlotType Types_string], [SlotType Types_object, Optional]] = 3 \<and>
   checkArguments (\<lambda>(s, t). Inr (s, t))
     [[SlotType Types_numeric], [SlotType Types_string], [SlotType Types_object, Optional]]
     (Some [(''0x1f'', TypeOf Types_hex), (''"a"'', TypeOf Types_string)]) =
     Inr [''0x1f'', ''"a"''] \<and>
   checkArguments (\<lambda>(s, t). Inr (s, t))
     [[SlotType Types_numeric], [SlotType Types_string], [SlotType Types_object, Optional]]
     (Some [(''1'', TypeOf Types_integer), (''2'', TypeOf Types_integer)]) =
     Inl (SemanticTypeError ''expected types _string but got type _integer for argument at index 1'') \<and>
   checkArguments (\<lambda>(s, t). Inr (s, t))
     [[SlotType Types_numeric], [SlotType Types_string], [SlotType Types_object, Optional]]
     (Some [(''1'', TypeOf Types_integer)]) =
     Inl (SemanticArgumentCountMismatchError ''too few arguments'') \<and>
   checkArguments (\<lambda>(s, t). Inr (s, t))
     [[SlotType Types_numeric], [SlotType Types_string], [SlotType Types_object, Optional]]
     (Some [(''1'', TypeOf Types_integer), (''"a"'', TypeOf Types_string),
            (''{}'', TypeOf Types_object), (''2'', TypeOf Types_integer)]) =
     Inl (SemanticArgumentCountMismatchError ''Arguments mismatch: expected 3 and got 4'')\<close>
  using
    checkArguments_outcome [of
      "[[SlotType Types_numeric], [SlotType Types_string], [SlotType Types_object, Optional]]"
      \<open>[(''1'', TypeOf Types_integer), (''"a"'', TypeOf Types_string),
         (''{}'', TypeOf Types_object), (''2'', TypeOf Types_integer)]\<close>
      "\<lambda>(s, t). Inr (s, t)" fst snd]
    checkArguments_outcome [of
      "[[SlotType Types_numeric], [SlotType Types_string], [SlotType Types_object, Optional]]"
      \<open>[(''0x1f'', TypeOf Types_hex), (''"a"'', TypeOf Types_string)]\<close>
      "\<lambda>(s, t). Inr (s, t)" fst snd]
    checkArguments_outcome [of
      "[[SlotType Types_numeric], [SlotType Types_string], [SlotType Types_object, Optional]]"
      "[(''1'', TypeOf Types_integer), (''2'', TypeOf Types_integer)]"
      "\<lambda>(s, t). Inr (s, t)" fst snd]
    checkArguments_outcome [of
      "[[SlotType Types_numeric], [SlotType Types_string], [SlotType Types_object, Optional]]"
      "[(''1'', TypeOf Types_integer)]"
      "\<lambda>(s, t). Inr (s, t)" fst snd]
  by (simp add: optional_suffix_def lo_def hi_def permits_optional_def checkArguments_def
      check_from.simps is_numeric_type_def type_error_message_def digit_char_def
      Types_numeric_def Types_string_def Types_object_def Types_hex_def Types_integer_def)

subsection \<open>The sandbox evaluator\<close>

text \<open>
  C2. The claim says that the context is destroyed on every exit path, also when the
  evaluation throws. Starting with no context alive, a fragment whose evaluation throws
  (\<^verbatim>\<open>ObjectId("zz")\<close>: the shim rejects the string) leaves the freshly allocated context
  \<open>0\<close> alive: the error leaves \<^verbatim>\<open>executeJavascript\<close> before \<^verbatim>\<open>ctx.destroy()\<close>. A
  fragment that evaluates leaves no context alive.
\<close>

theorem executeJavascript_leaks_context_on_throw:
  \<open>executeJavascript
     (\<lambda>src. Inl ''Argument passed in must be a string of 24 hex characters'' :: string + objectid)
     ''ObjectId("zz")'' \<lparr>allocated = 0, alive = [], evaluated = []\<rparr> =
   (Inl ''Argument passed in must be a string of 24 hex characters'',
    \<lparr>allocated = 1, alive = [0], evaluated = [(0, ''__result = ObjectId("zz")'')]\<rparr>) \<and>
   executeJavascript (\<lambda>src. Inr \<lparr>toHexString = ''5ab901c29ee65f5c8550c5b9''\<rparr>)
     ''ObjectId("5ab901c29ee65f5c8550c5b9")'' \<lparr>allocated = 0, alive = [], evaluated = []\<rparr> =
   (Inr \<lparr>toHexString = ''5ab901c29ee65f5c8550c5b9''\<rparr>,
    \<lparr>allocated = 1, alive = [],
     evaluated = [(0, ''__result = ObjectId("5ab901c29ee65f5c8550c5b9")'')]\<rparr>)\<close>
  by (simp add: executeJavascript_def new_Context_def Context_evaluate_def Context_destroy_def)

lemma executeJavascript_success:
  assumes "run (''__result = '' @ input) = Inr v" and "allocated w \<notin> set (alive w)"
  shows "executeJavascript run input w =
           (Inr v, w\<lparr>allocated := allocated w + 1,
                     evaluated := evaluated w @ [(allocated w, ''__result = '' @ input)]\<rparr>)"
  using assms
  by (simp add: executeJavascript_def new_Context_def Context_evaluate_def Context_destroy_def)

lemma executeJavascript_throw:
  assumes "run (''__result = '' @ input) = Inl message"
  shows "executeJavascript run input w =
           (Inl message, w\<lparr>allocated := allocated w + 1, alive := alive w @ [allocated w],
                     evaluated := evaluated w @ [(allocated w, ''__result = '' @ input)]\<rparr>)"
  using assms
  by (simp add: executeJavascript_def new_Context_def Context_evaluate_def)

subsection \<open>Type tagging\<close>





















end
